theory Spec2Isabelle
  imports Main "HOL-Library.Word"
begin

unbundle bit_operations_syntax

section \<open>Bytes and strings of the host language\<close>

text \<open>
  The source is TypeScript. A \<^verbatim>\<open>Uint8Array\<close> holds bytes; a string is a sequence of
  UTF-16 code units, and \<^verbatim>\<open>length\<close>, \<^verbatim>\<open>slice\<close> and \<^verbatim>\<open>===\<close> work on code units.
  String literals of the source that are plain ASCII are written with \<open>js\<close>.
\<close>

type_synonym byte = "8 word"
type_synonym jsstring = "16 word list"

definition js :: "string \<Rightarrow> jsstring" where
  "js s = map of_char s"

subsection \<open>Library functions of the platform that the source calls\<close>

text \<open>
  \<^verbatim>\<open>String.prototype.trim\<close> and \<^verbatim>\<open>parseInt\<close> skip the code units that the language
  standard calls white space or line terminators.
\<close>

definition isWhiteSpace :: "16 word \<Rightarrow> bool" where
  "isWhiteSpace c \<longleftrightarrow>
     c = 0x9 \<or> c = 0xA \<or> c = 0xB \<or> c = 0xC \<or> c = 0xD \<or> c = 0x20 \<or> c = 0xA0 \<or>
     c = 0x1680 \<or> (0x2000 \<le> c \<and> c \<le> 0x200A) \<or> c = 0x2028 \<or> c = 0x2029 \<or>
     c = 0x202F \<or> c = 0x205F \<or> c = 0x3000 \<or> c = 0xFEFF"

definition trimStart :: "jsstring \<Rightarrow> jsstring" where
  "trimStart s = dropWhile isWhiteSpace s"

definition trim :: "jsstring \<Rightarrow> jsstring" where
  "trim s = rev (dropWhile isWhiteSpace (rev (dropWhile isWhiteSpace s)))"

definition isDigit :: "16 word \<Rightarrow> bool" where
  "isDigit c \<longleftrightarrow> 0x30 \<le> c \<and> c \<le> 0x39"

text \<open>
  \<^verbatim>\<open>parseInt(s, 10)\<close>: leading white space is skipped, one sign is accepted, then the
  longest run of decimal digits is read; no digit at all gives \<^verbatim>\<open>NaN\<close>, which is \<open>None\<close>
  here, so \<^verbatim>\<open>!isNaN(num)\<close> is \<open>num \<noteq> None\<close>. The numbers of the widgets (indices, rating
  values) are integers throughout. The result here is the exact integer; the platform
  gives a double, which is the same number below \<open>2 ^ 53\<close>, and the calls that the widgets
  reach hand \<open>parseInt\<close> the text of one key, at most eight code units.
\<close>

definition parseInt :: "jsstring \<Rightarrow> int option" where
  "parseInt s =
     (let S = trimStart s;
          sign = (if S \<noteq> [] \<and> hd S = 0x2D then - 1 else 1);
          S = (if S \<noteq> [] \<and> (hd S = 0x2B \<or> hd S = 0x2D) then tl S else S);
          Z = takeWhile isDigit S
      in if Z = [] then None
         else Some (sign * int (foldl (\<lambda>a c. a * 10 + (unat c - 48)) 0 Z)))"

text \<open>
  \<^verbatim>\<open>toLowerCase\<close> on the letters A to Z. The source compares its result with the
  literals \<^verbatim>\<open>"y"\<close>, \<^verbatim>\<open>"yes"\<close> and \<^verbatim>\<open>"n"\<close> only, and no letter outside A to Z has one
  of y, e, s, n as its lower case, so the other code units are left as they are.
\<close>

definition toLowerCase :: "jsstring \<Rightarrow> jsstring" where
  "toLowerCase s = map (\<lambda>c. if 0x41 \<le> c \<and> c \<le> 0x5A then c + 0x20 else c) s"

text \<open>A number in a template string is written in decimal.\<close>

fun digits :: "nat \<Rightarrow> jsstring" where
  "digits n = (if n < 10 then [of_nat (48 + n)] else digits (n div 10) @ [of_nat (48 + n mod 10)])"

declare digits.simps [simp del]

definition Number_toString :: "int \<Rightarrow> jsstring" where
  "Number_toString i = (if i < 0 then js ''-'' @ digits (nat (- i)) else digits (nat i))"

subsection \<open>\<^verbatim>\<open>new TextDecoder().decode\<close>\<close>

text \<open>
  The decoder of the platform reads UTF-8: a byte sequence that is not well formed gives
  the replacement character U+FFFD and decoding goes on, the offending byte being read
  again when it was expected to continue a sequence. A byte order mark at the very start is
  dropped. Code points above U+FFFF become a surrogate pair.
\<close>

datatype utf8_result = Continue | Error | ErrorPrepend | CodePoint nat

record utf8_state =
  code_point :: nat
  bytes_seen :: nat
  bytes_needed :: nat
  lower_boundary :: byte
  upper_boundary :: byte

definition utf8_init :: utf8_state where
  "utf8_init = \<lparr>code_point = 0, bytes_seen = 0, bytes_needed = 0,
     lower_boundary = 0x80, upper_boundary = 0xBF\<rparr>"

definition utf8_handler :: "utf8_state \<Rightarrow> byte \<Rightarrow> utf8_result \<times> utf8_state" where
  "utf8_handler st b =
    (if bytes_needed st = 0 then
       (if b \<le> 0x7F then (CodePoint (unat b), st)
        else if 0xC2 \<le> b \<and> b \<le> 0xDF then
          (Continue, st\<lparr>bytes_needed := 1, code_point := unat (b AND 0x1F)\<rparr>)
        else if 0xE0 \<le> b \<and> b \<le> 0xEF then
          (Continue, st\<lparr>lower_boundary := (if b = 0xE0 then 0xA0 else lower_boundary st),
                           upper_boundary := (if b = 0xED then 0x9F else upper_boundary st),
                           bytes_needed := 2, code_point := unat (b AND 0xF)\<rparr>)
        else if 0xF0 \<le> b \<and> b \<le> 0xF4 then
          (Continue, st\<lparr>lower_boundary := (if b = 0xF0 then 0x90 else lower_boundary st),
                           upper_boundary := (if b = 0xF4 then 0x8F else upper_boundary st),
                           bytes_needed := 3, code_point := unat (b AND 0x7)\<rparr>)
        else (Error, st))
     else if \<not> (lower_boundary st \<le> b \<and> b \<le> upper_boundary st) then (ErrorPrepend, utf8_init)
     else
       (let st' = st\<lparr>lower_boundary := 0x80, upper_boundary := 0xBF,
                        code_point := code_point st * 64 + unat (b AND 0x3F),
                        bytes_seen := bytes_seen st + 1\<rparr>
        in if bytes_seen st' \<noteq> bytes_needed st' then (Continue, st')
           else (CodePoint (code_point st'), utf8_init)))"

fun utf8_decode :: "utf8_state \<Rightarrow> byte list \<Rightarrow> nat list" where
  "utf8_decode st [] = (if bytes_needed st \<noteq> 0 then [0xFFFD] else [])"
| "utf8_decode st (b # bs) =
    (case utf8_handler st b of
       (Continue, st') \<Rightarrow> utf8_decode st' bs
     | (CodePoint c, st') \<Rightarrow> c # utf8_decode st' bs
     | (Error, st') \<Rightarrow> 0xFFFD # utf8_decode st' bs
     | (ErrorPrepend, st') \<Rightarrow>
         0xFFFD # (case utf8_handler st' b of
                     (Continue, st'') \<Rightarrow> utf8_decode st'' bs
                   | (CodePoint c, st'') \<Rightarrow> c # utf8_decode st'' bs
                   | (_, st'') \<Rightarrow> 0xFFFD # utf8_decode st'' bs))"

definition utf16_units :: "nat \<Rightarrow> jsstring" where
  "utf16_units cp =
     (if cp < 0x10000 then [of_nat cp]
      else [of_nat (0xD800 + (cp - 0x10000) div 0x400), of_nat (0xDC00 + (cp - 0x10000) mod 0x400)])"

definition TextDecoder_decode :: "byte list \<Rightarrow> jsstring" where
  "TextDecoder_decode bs =
     (let cps = utf8_decode utf8_init bs;
          cps = (case cps of [] \<Rightarrow> [] | c # rest \<Rightarrow> if c = 0xFEFF then rest else cps)
      in concat (map utf16_units cps))"

section \<open>Key decoder\<close>

text \<open>Key codes of the source.\<close>

definition CTRL_C :: byte where "CTRL_C = 0x03"
definition ENTER :: byte where "ENTER = 13"
definition ESCAPE :: byte where "ESCAPE = 27"
definition BACKSPACE :: byte where "BACKSPACE = 127"
definition DEL :: byte where "DEL = 8"

datatype Key =
    Key_char jsstring
  | Key_enter
  | Key_escape
  | Key_backspace
  | Key_up
  | Key_down
  | Key_left
  | Key_right
  | Key_ctrl_c
  | Key_unknown

text \<open>
  \<open>readKey\<close> is the body of the source's function of that name, applied to what its one
  call of \<^verbatim>\<open>Deno.stdin.read(buf)\<close> delivers: \<open>None\<close> when the read gives \<^verbatim>\<open>null\<close> (end
  of stream), \<open>Some chunk\<close> when it gives bytes. The buffer is fresh, eight bytes long and
  zero-filled, so \<open>n\<close> is at most eight and the bytes of the buffer behind the chunk read
  as zero.
\<close>

definition readKey :: "byte list option \<Rightarrow> Key" where
  "readKey r =
     (case r of
        None \<Rightarrow> Key_unknown
      | Some chunk \<Rightarrow>
          (let n = min (length chunk) 8;
               buf = take 8 chunk @ replicate (8 - length chunk) 0
           in if n = 0 then Key_unknown
              else
                (let first = buf ! 0
                 in if first = CTRL_C then Key_ctrl_c
                    else if first = ENTER then Key_enter
                    else if first = BACKSPACE \<or> first = DEL then Key_backspace
                    else if first = ESCAPE then
                      (if n = 1 then Key_escape
                       else if buf ! 1 = 91 then
                         (if buf ! 2 = 65 then Key_up
                          else if buf ! 2 = 66 then Key_down
                          else if buf ! 2 = 67 then Key_right
                          else if buf ! 2 = 68 then Key_left
                          else Key_unknown)
                       else Key_unknown)
                    else Key_char (TextDecoder_decode (take n buf)))))"

section \<open>Render surface and terminal\<close>

text \<open>The fragments of the source's \<^verbatim>\<open>ansi\<close> table that the widgets use.\<close>

definition ESC :: jsstring where "ESC = [0x1B]"
definition CSI :: jsstring where "CSI = ESC @ js ''[''"

definition ansi_hideCursor :: jsstring where "ansi_hideCursor = CSI @ js ''?25l''"
definition ansi_showCursor :: jsstring where "ansi_showCursor = CSI @ js ''?25h''"
definition ansi_cursorUp :: "int \<Rightarrow> jsstring" where
  "ansi_cursorUp n = CSI @ Number_toString n @ js ''A''"
definition ansi_clearLine :: jsstring where "ansi_clearLine = CSI @ js ''2K''"
definition ansi_reset :: jsstring where "ansi_reset = CSI @ js ''0m''"
definition ansi_bold :: jsstring where "ansi_bold = CSI @ js ''1m''"
definition ansi_dim :: jsstring where "ansi_dim = CSI @ js ''2m''"
definition ansi_cyan :: jsstring where "ansi_cyan = CSI @ js ''36m''"

text \<open>Carriage return and line feed, written \<^verbatim>\<open>\r\<close> and \<^verbatim>\<open>\n\<close> in the source.\<close>

definition CR :: jsstring where "CR = [0x0D]"
definition LF :: jsstring where "LF = [0x0A]"

text \<open>
  The part of the process that the widgets touch. \<open>isTerminal\<close> is what
  \<^verbatim>\<open>Deno.stdin.isTerminal()\<close> answers, \<open>raw\<close> is the raw-mode flag of standard input,
  \<open>stdin\<close> holds what the coming calls of \<^verbatim>\<open>Deno.stdin.read\<close> will deliver (one entry
  for each call, of at most eight bytes, since that is the buffer \<open>readKey\<close> reads into), \<open>lines\<close>
  the lines that standard input holds for \<^verbatim>\<open>prompt\<close> to read (\<open>None\<close> is the end of the
  stream), and \<open>out\<close> is the log of output calls, oldest first: one entry for each call of
  \<^verbatim>\<open>write\<close> and of \<^verbatim>\<open>console.log\<close>, and for each message that \<^verbatim>\<open>prompt\<close> prints.
\<close>

datatype out_call = Write jsstring | ConsoleLog jsstring | PromptMessage jsstring

record world =
  isTerminal :: bool
  raw :: bool
  stdin :: "byte list option list"
  lines :: "jsstring option list"
  out :: "out_call list"

definition write_stdout :: "jsstring \<Rightarrow> world \<Rightarrow> world" where
  "write_stdout txt w = w\<lparr>out := out w @ [Write txt]\<rparr>"

definition setRaw :: "bool \<Rightarrow> world \<Rightarrow> world" where
  "setRaw mode w = w\<lparr>raw := mode\<rparr>"

definition console_log :: "jsstring \<Rightarrow> world \<Rightarrow> world" where
  "console_log txt w = w\<lparr>out := out w @ [ConsoleLog txt]\<rparr>"

text \<open>
  \<^verbatim>\<open>prompt\<close> is a function of the platform. When standard input is not a terminal it
  returns \<^verbatim>\<open>null\<close> at once: it prints nothing and reads nothing. On a terminal it prints
  the message and reads one line.
\<close>

definition prompt :: "jsstring \<Rightarrow> world \<Rightarrow> jsstring option \<times> world" where
  "prompt message w =
     (if \<not> isTerminal w then (None, w)
      else
        (case lines w of
           [] \<Rightarrow> (None, w\<lparr>out := out w @ [PromptMessage message]\<rparr>)
         | l # ls \<Rightarrow> (l, w\<lparr>lines := ls, out := out w @ [PromptMessage message]\<rparr>)))"

text \<open>
  How the body of a \<^verbatim>\<open>try\<close> block with its \<^verbatim>\<open>while (true)\<close> loop ends: by \<^verbatim>\<open>break\<close>
  with the widget's state, by \<^verbatim>\<open>Deno.exit\<close> with a status, or not yet, when the loop
  waits for a key and no further read is at hand. And how a call of a widget ends: it
  returns a value, the process has ended, or the call is still waiting for a key.
\<close>

datatype 'a loop_end = Break 'a | Exit int | Awaiting

datatype 'a outcome = Returned 'a | Exited int | Blocked

section \<open>Select\<close>

definition select_render :: "jsstring \<Rightarrow> jsstring list \<Rightarrow> int \<Rightarrow> world \<Rightarrow> world" where
  "select_render question options selected w =
     foldl (\<lambda>w i.
              (let w = write_stdout ansi_clearLine w
               in if int i = selected
                  then write_stdout (ansi_cyan @ [0x276F, 0x20] @ options ! i @ ansi_reset @ LF) w
                  else write_stdout (js ''  '' @ ansi_dim @ options ! i @ ansi_reset @ LF) w))
       (write_stdout (question @ LF) (write_stdout (CR @ ansi_clearLine) w))
       [0..<length options]"

definition select_moveUp :: "jsstring list \<Rightarrow> world \<Rightarrow> world" where
  "select_moveUp options w = write_stdout (ansi_cursorUp (int (length options) + 1)) w"

text \<open>
  The loop of the \<^verbatim>\<open>try\<close> block. The pending reads are an argument of their own, so that
  the recursion is on that list; every iteration takes the first one, which is the one
  call of \<open>readKey\<close> of that iteration, and leaves the others in the world.
\<close>

fun select_loop ::
  "jsstring \<Rightarrow> jsstring list \<Rightarrow> int \<Rightarrow> byte list option list \<Rightarrow> world \<Rightarrow> int loop_end \<times> world"
where
  "select_loop question options selected [] w = (Awaiting, w)"
| "select_loop question options selected (r # rs) w0 =
    (let w = w0\<lparr>stdin := rs\<rparr>; key = readKey r
     in if key = Key_ctrl_c then (Exit 130, setRaw False (write_stdout ansi_showCursor w))
        else if key = Key_enter then (Break selected, w)
        else
          (let (selected, w) =
                 (if key = Key_up \<and> selected > 0
                  then (selected - 1,
                        select_render question options (selected - 1) (select_moveUp options w))
                  else (selected, w));
               (selected, w) =
                 (if key = Key_down \<and> selected < int (length options) - 1
                  then (selected + 1,
                        select_render question options (selected + 1) (select_moveUp options w))
                  else (selected, w));
               (selected, w) =
                 (case key of
                    Key_char char \<Rightarrow>
                      (case parseInt char of
                         Some num \<Rightarrow>
                           if num \<ge> 1 \<and> num \<le> int (length options)
                           then (num - 1,
                                 select_render question options (num - 1) (select_moveUp options w))
                           else (selected, w)
                       | None \<Rightarrow> (selected, w))
                  | _ \<Rightarrow> (selected, w))
           in select_loop question options selected rs w))"

definition select_fallback :: "jsstring \<Rightarrow> jsstring list \<Rightarrow> int \<Rightarrow> world \<Rightarrow> int outcome \<times> world" where
  "select_fallback question options defaultIndex w =
    (let w = console_log question w;
         w = foldl (\<lambda>w i.
                 (let marker = (if int i = defaultIndex then js ''>'' else js '' '')
                  in console_log (js ''  '' @ marker @ js '' '' @ Number_toString (int i + 1) @
                                  js ''. '' @ options ! i) w))
               w [0..<length options];
         (result, w) = prompt (js ''Choice ['' @ Number_toString (defaultIndex + 1) @ js '']:'') w
     in case result of
          None \<Rightarrow> (Returned defaultIndex, w)
        | Some result \<Rightarrow>
            if trim result = [] then (Returned defaultIndex, w)
            else
              (case parseInt (trim result) of
                 Some num \<Rightarrow>
                   if num \<ge> 1 \<and> num \<le> int (length options) then (Returned (num - 1), w)
                   else (Returned defaultIndex, w)
               | None \<Rightarrow> (Returned defaultIndex, w)))"

text \<open>
  \<^verbatim>\<open>Deno.exit\<close> ends the process on the spot, so the \<^verbatim>\<open>finally\<close> block runs after a
  \<^verbatim>\<open>break\<close> only.
\<close>

definition select :: "jsstring \<Rightarrow> jsstring list \<Rightarrow> int \<Rightarrow> world \<Rightarrow> int outcome \<times> world" where
  "select question options defaultIndex w =
    (if length options = 0 then (Returned (- 1), w)
     else if \<not> isTerminal w then select_fallback question options defaultIndex w
     else
       (let w = setRaw True w;
            w = write_stdout ansi_hideCursor w;
            w = select_render question options defaultIndex w
        in case select_loop question options defaultIndex (stdin w) w of
             (Break selected, w) \<Rightarrow> (Returned selected, write_stdout ansi_showCursor (setRaw False w))
           | (Exit status, w) \<Rightarrow> (Exited status, w)
           | (Awaiting, w) \<Rightarrow> (Blocked, w)))"

section \<open>Input\<close>

definition input_render :: "jsstring \<Rightarrow> jsstring \<Rightarrow> jsstring \<Rightarrow> world \<Rightarrow> world" where
  "input_render question defaultValue val w =
    (let w = write_stdout (CR @ ansi_clearLine) w
     in if val \<noteq> [] then write_stdout (question @ js '': '' @ val) w
        else if defaultValue \<noteq> [] then
          write_stdout (question @ js '': '' @ ansi_dim @ defaultValue @ ansi_reset) w
        else write_stdout (question @ js '': '') w)"

fun input_loop ::
  "jsstring \<Rightarrow> jsstring \<Rightarrow> jsstring \<Rightarrow> byte list option list \<Rightarrow> world \<Rightarrow> jsstring loop_end \<times> world"
where
  "input_loop question defaultValue val [] w = (Awaiting, w)"
| "input_loop question defaultValue val (r # rs) w0 =
    (let w = w0\<lparr>stdin := rs\<rparr>; key = readKey r
     in if key = Key_ctrl_c then (Exit 130, setRaw False w)
        else if key = Key_enter then (Break val, write_stdout LF w)
        else
          (let (val, w) =
                 (if key = Key_backspace then
                    (if length val > 0
                     then (butlast val, input_render question defaultValue (butlast val) w)
                     else (val, w))
                  else
                    (case key of
                       Key_char char \<Rightarrow>
                         (val @ char, input_render question defaultValue (val @ char) w)
                     | _ \<Rightarrow> (val, w)))
           in input_loop question defaultValue val rs w))"

definition input_fallback :: "jsstring \<Rightarrow> jsstring \<Rightarrow> world \<Rightarrow> jsstring outcome \<times> world" where
  "input_fallback question defaultValue w =
    (let suffix = (if defaultValue \<noteq> [] then js '' ['' @ defaultValue @ js '']'' else []);
         (result, w) = prompt (question @ suffix @ js '':'') w
     in case result of
          None \<Rightarrow> (Returned defaultValue, w)
        | Some result \<Rightarrow>
            if trim result = [] then (Returned defaultValue, w)
            else (Returned (trim result), w))"

definition input :: "jsstring \<Rightarrow> jsstring \<Rightarrow> world \<Rightarrow> jsstring outcome \<times> world" where
  "input question defaultValue w =
    (if \<not> isTerminal w then input_fallback question defaultValue w
     else
       (let w = setRaw True w;
            w = input_render question defaultValue [] w
        in case input_loop question defaultValue [] (stdin w) w of
             (Break val, w) \<Rightarrow>
               (Returned (if val \<noteq> [] then val else defaultValue), setRaw False w)
           | (Exit status, w) \<Rightarrow> (Exited status, w)
           | (Awaiting, w) \<Rightarrow> (Blocked, w)))"

section \<open>Rating\<close>

definition rating_renderScale :: "int \<Rightarrow> int \<Rightarrow> int \<Rightarrow> jsstring" where
  "rating_renderScale minv maxv val =
     foldl (\<lambda>scale i.
              if i = val
              then scale @ ansi_cyan @ ansi_bold @ Number_toString i @ ansi_reset @ js '' ''
              else scale @ ansi_dim @ Number_toString i @ ansi_reset @ js '' '')
       [] [minv..maxv]"

definition rating_render :: "jsstring \<Rightarrow> int \<Rightarrow> int \<Rightarrow> int \<Rightarrow> world \<Rightarrow> world" where
  "rating_render question minv maxv val w =
    (let w = write_stdout (CR @ ansi_clearLine) w
     in write_stdout (question @ js '': '' @ rating_renderScale minv maxv val) w)"

fun rating_loop ::
  "jsstring \<Rightarrow> int \<Rightarrow> int \<Rightarrow> int \<Rightarrow> byte list option list \<Rightarrow> world \<Rightarrow> int loop_end \<times> world"
where
  "rating_loop question minv maxv val [] w = (Awaiting, w)"
| "rating_loop question minv maxv val (r # rs) w0 =
    (let w = w0\<lparr>stdin := rs\<rparr>; key = readKey r
     in if key = Key_ctrl_c then (Exit 130, setRaw False w)
        else if key = Key_enter then (Break val, write_stdout LF w)
        else
          (let (val, w) =
                 (if (key = Key_left \<or> key = Key_down) \<and> val > minv
                  then (val - 1, rating_render question minv maxv (val - 1) w)
                  else (val, w));
               (val, w) =
                 (if (key = Key_right \<or> key = Key_up) \<and> val < maxv
                  then (val + 1, rating_render question minv maxv (val + 1) w)
                  else (val, w));
               (val, w) =
                 (case key of
                    Key_char char \<Rightarrow>
                      (case parseInt char of
                         Some num \<Rightarrow>
                           if num \<ge> minv \<and> num \<le> maxv
                           then (num, rating_render question minv maxv num w)
                           else (val, w)
                       | None \<Rightarrow> (val, w))
                  | _ \<Rightarrow> (val, w))
           in rating_loop question minv maxv val rs w))"

definition rating_fallback :: "jsstring \<Rightarrow> int \<Rightarrow> int \<Rightarrow> int \<Rightarrow> world \<Rightarrow> int outcome \<times> world" where
  "rating_fallback question minv maxv defaultValue w =
    (let (result, w) =
           prompt (question @ js '' ('' @ Number_toString minv @ js ''-'' @ Number_toString maxv @
                   js '') ['' @ Number_toString defaultValue @ js '']:'') w
     in case result of
          None \<Rightarrow> (Returned defaultValue, w)
        | Some result \<Rightarrow>
            if trim result = [] then (Returned defaultValue, w)
            else
              (case parseInt (trim result) of
                 Some num \<Rightarrow>
                   if num \<ge> minv \<and> num \<le> maxv then (Returned num, w)
                   else (Returned defaultValue, w)
               | None \<Rightarrow> (Returned defaultValue, w)))"

definition rating :: "jsstring \<Rightarrow> int \<Rightarrow> int \<Rightarrow> int \<Rightarrow> world \<Rightarrow> int outcome \<times> world" where
  "rating question minv maxv defaultValue w =
    (if \<not> isTerminal w then rating_fallback question minv maxv defaultValue w
     else
       (let w = setRaw True w;
            w = rating_render question minv maxv defaultValue w
        in case rating_loop question minv maxv defaultValue (stdin w) w of
             (Break val, w) \<Rightarrow> (Returned val, setRaw False w)
           | (Exit status, w) \<Rightarrow> (Exited status, w)
           | (Awaiting, w) \<Rightarrow> (Blocked, w)))"

section \<open>Confirm\<close>

definition confirm_render :: "jsstring \<Rightarrow> bool \<Rightarrow> world \<Rightarrow> world" where
  "confirm_render question val w =
    (let w = write_stdout (CR @ ansi_clearLine) w;
         yes = (if val then ansi_cyan @ ansi_bold @ js ''Yes'' @ ansi_reset
                else ansi_dim @ js ''Yes'' @ ansi_reset);
         no = (if \<not> val then ansi_cyan @ ansi_bold @ js ''No'' @ ansi_reset
               else ansi_dim @ js ''No'' @ ansi_reset)
     in write_stdout (question @ js '' '' @ yes @ js '' / '' @ no) w)"

fun confirm_loop ::
  "jsstring \<Rightarrow> bool \<Rightarrow> byte list option list \<Rightarrow> world \<Rightarrow> bool loop_end \<times> world"
where
  "confirm_loop question val [] w = (Awaiting, w)"
| "confirm_loop question val (r # rs) w0 =
    (let w = w0\<lparr>stdin := rs\<rparr>; key = readKey r
     in if key = Key_ctrl_c then (Exit 130, setRaw False w)
        else if key = Key_enter then (Break val, write_stdout LF w)
        else
          (let (val, w) =
                 (if key = Key_left \<or> key = Key_right \<or> key = Key_up \<or> key = Key_down
                  then (\<not> val, confirm_render question (\<not> val) w)
                  else (val, w));
               (val, w) =
                 (case key of
                    Key_char char \<Rightarrow>
                      if toLowerCase char = js ''y'' then (True, confirm_render question True w)
                      else if toLowerCase char = js ''n'' then (False, confirm_render question False w)
                      else (val, w)
                  | _ \<Rightarrow> (val, w))
           in confirm_loop question val rs w))"

definition confirm_fallback :: "jsstring \<Rightarrow> bool \<Rightarrow> world \<Rightarrow> bool outcome \<times> world" where
  "confirm_fallback question defaultValue w =
    (let hint = (if defaultValue then js ''[Y/n]'' else js ''[y/N]'');
         (result, w) = prompt (question @ js '' '' @ hint @ js '':'') w
     in case result of
          None \<Rightarrow> (Returned defaultValue, w)
        | Some result \<Rightarrow>
            if trim result = [] then (Returned defaultValue, w)
            else
              (let lower = toLowerCase (trim result)
               in (Returned (lower = js ''y'' \<or> lower = js ''yes''), w)))"

definition confirm :: "jsstring \<Rightarrow> bool \<Rightarrow> world \<Rightarrow> bool outcome \<times> world" where
  "confirm question defaultValue w =
    (if \<not> isTerminal w then confirm_fallback question defaultValue w
     else
       (let w = setRaw True w;
            w = confirm_render question defaultValue w
        in case confirm_loop question defaultValue (stdin w) w of
             (Break val, w) \<Rightarrow> (Returned val, setRaw False w)
           | (Exit status, w) \<Rightarrow> (Exited status, w)
           | (Awaiting, w) \<Rightarrow> (Blocked, w)))"

section \<open>Vocabulary of the properties\<close>

text \<open>
  The raw-mode discipline of a call, read off its result: raw mode is disengaged when the
  call has returned and when the process has ended (with status 130), and engaged while
  the call waits for a key inside its loop.
\<close>

definition raw_mode_discipline :: "'a outcome \<times> world \<Rightarrow> bool" where
  "raw_mode_discipline res =
     (case res of
        (Returned v, w') \<Rightarrow> \<not> raw w'
      | (Exited status, w') \<Rightarrow> status = 130 \<and> \<not> raw w'
      | (Blocked, w') \<Rightarrow> raw w')"

text \<open>
  Two starting worlds for the examples: an interactive terminal in cooked mode with the
  given reads to come, and a redirected standard input that holds the given lines.
\<close>

definition interactive_world :: "byte list option list \<Rightarrow> world" where
  "interactive_world reads =
     \<lparr>isTerminal = True, raw = False, stdin = reads, lines = [], out = []\<rparr>"

definition piped_world :: "jsstring option list \<Rightarrow> world" where
  "piped_world ls =
     \<lparr>isTerminal = False, raw = False, stdin = [], lines = ls, out = []\<rparr>"

section \<open>The key decoder\<close>

lemma readKey_buf_take:
  "length chunk \<le> 8 \<Longrightarrow>
   take (min (length chunk) 8) (take 8 chunk @ replicate (8 - length chunk) 0) = chunk"
  by (simp add: min_def)

text \<open>
  C2. A read that delivers a non-empty chunk (at most eight bytes, the size of the buffer)
  is decoded to one key by the rules of the specification, taken in their order: first
  byte 0x03 is the interrupt key, 13 is enter, 127 or 8 is backspace, 27 alone is escape,
  27 and 0x5B followed by 0x41, 0x42, 0x43, 0x44 are up, down, right, left, anything else
  after 27 is unknown, and any other first byte gives the character key that carries the
  whole chunk decoded as text.
\<close>

theorem readKey_rules:
  assumes "chunk \<noteq> []" and "length chunk \<le> 8"
  shows "readKey (Some chunk) =
    (if hd chunk = 0x03 then Key_ctrl_c
     else if hd chunk = 13 then Key_enter
     else if hd chunk = 127 \<or> hd chunk = 8 then Key_backspace
     else if chunk = [27] then Key_escape
     else if take 3 chunk = [27, 0x5B, 0x41] then Key_up
     else if take 3 chunk = [27, 0x5B, 0x42] then Key_down
     else if take 3 chunk = [27, 0x5B, 0x43] then Key_right
     else if take 3 chunk = [27, 0x5B, 0x44] then Key_left
     else if hd chunk = 27 then Key_unknown
     else Key_char (TextDecoder_decode chunk))"
proof (cases chunk)
  case Nil
  with assms show ?thesis by simp
next
  case c1: (Cons a r1)
  show ?thesis
  proof (cases r1)
    case Nil
    with c1 show ?thesis
      by (simp add: readKey_def CTRL_C_def ENTER_def BACKSPACE_def DEL_def ESCAPE_def)
  next
    case c2: (Cons b r2)
    show ?thesis
    proof (cases r2)
      case Nil
      with c1 c2 show ?thesis
        by (simp add: readKey_def CTRL_C_def ENTER_def BACKSPACE_def DEL_def ESCAPE_def Let_def)
    next
      case c3: (Cons c r3)
      have tk: "take (min (length chunk) 8) (take 8 chunk @ replicate (8 - length chunk) 0) = chunk"
        using assms(2) by (rule readKey_buf_take)
      from c1 c2 c3 assms(2) tk show ?thesis
        by (simp add: readKey_def CTRL_C_def ENTER_def BACKSPACE_def DEL_def ESCAPE_def Let_def)
    qed
  qed
qed

theorem readKey_rules_witness:
  "readKey (Some [0x1B, 0x5B, 0x41]) = Key_up \<and> readKey (Some [0x1B, 0x5B, 0x42]) = Key_down \<and>
   readKey (Some [0x1B, 0x5B, 0x43]) = Key_right \<and> readKey (Some [0x1B, 0x5B, 0x44]) = Key_left \<and>
   readKey (Some [0x1B]) = Key_escape \<and> readKey (Some [0x1B, 0x5B]) = Key_unknown \<and>
   readKey (Some [0x03, 0x41]) = Key_ctrl_c \<and> readKey (Some [13]) = Key_enter \<and>
   readKey (Some [127]) = Key_backspace \<and> readKey (Some [8]) = Key_backspace \<and>
   readKey (Some [0x78]) = Key_char (TextDecoder_decode [0x78])"
  using readKey_rules [of "[0x1B, 0x5B, 0x41]"] readKey_rules [of "[0x1B, 0x5B, 0x42]"]
    readKey_rules [of "[0x1B, 0x5B, 0x43]"] readKey_rules [of "[0x1B, 0x5B, 0x44]"]
    readKey_rules [of "[0x1B]"] readKey_rules [of "[0x1B, 0x5B]"]
    readKey_rules [of "[0x03, 0x41]"] readKey_rules [of "[13]"]
    readKey_rules [of "[127]"] readKey_rules [of "[8]"] readKey_rules [of "[0x78]"]
  by simp

section \<open>Facts shared by the four widgets\<close>

subsection \<open>What the output helpers leave untouched\<close>

lemma foldl_field:
  assumes "\<And>w i. g (f w i) = g w"
  shows "g (foldl f w xs) = g w"
  using assms by (induction xs arbitrary: w) simp_all

lemma write_stdout_fields [simp]:
  "raw (write_stdout t w) = raw w" "stdin (write_stdout t w) = stdin w"
  "isTerminal (write_stdout t w) = isTerminal w" "lines (write_stdout t w) = lines w"
  "out (write_stdout t w) = out w @ [Write t]"
  by (simp_all add: write_stdout_def)

lemma setRaw_fields [simp]:
  "raw (setRaw b w) = b" "stdin (setRaw b w) = stdin w"
  "isTerminal (setRaw b w) = isTerminal w" "lines (setRaw b w) = lines w"
  "out (setRaw b w) = out w"
  by (simp_all add: setRaw_def)

lemma select_render_fields [simp]:
  "raw (select_render q opts sel w) = raw w"
  "stdin (select_render q opts sel w) = stdin w"
  "isTerminal (select_render q opts sel w) = isTerminal w"
  "lines (select_render q opts sel w) = lines w"
  unfolding select_render_def
  by (rule trans [OF foldl_field], simp add: Let_def, simp)+

lemma select_moveUp_fields [simp]:
  "raw (select_moveUp opts w) = raw w" "stdin (select_moveUp opts w) = stdin w"
  "isTerminal (select_moveUp opts w) = isTerminal w" "lines (select_moveUp opts w) = lines w"
  by (simp_all add: select_moveUp_def)

lemma input_render_fields [simp]:
  "raw (input_render q dv val w) = raw w" "stdin (input_render q dv val w) = stdin w"
  "isTerminal (input_render q dv val w) = isTerminal w" "lines (input_render q dv val w) = lines w"
  by (simp_all add: input_render_def Let_def)

lemma rating_render_fields [simp]:
  "raw (rating_render q lo hi val w) = raw w" "stdin (rating_render q lo hi val w) = stdin w"
  "isTerminal (rating_render q lo hi val w) = isTerminal w"
  "lines (rating_render q lo hi val w) = lines w"
  by (simp_all add: rating_render_def Let_def)

lemma confirm_render_fields [simp]:
  "raw (confirm_render q val w) = raw w" "stdin (confirm_render q val w) = stdin w"
  "isTerminal (confirm_render q val w) = isTerminal w" "lines (confirm_render q val w) = lines w"
  by (simp_all add: confirm_render_def Let_def)

subsection \<open>Single keys\<close>

lemma readKey_enter: "readKey (Some [13]) = Key_enter"
  by (simp add: readKey_def CTRL_C_def ENTER_def)

lemma readKey_ctrl_c: "readKey (Some [3]) = Key_ctrl_c"
  by (simp add: readKey_def CTRL_C_def)

lemma readKey_arrows:
  "readKey (Some [0x1B, 0x5B, 0x41]) = Key_up" "readKey (Some [0x1B, 0x5B, 0x42]) = Key_down"
  "readKey (Some [0x1B, 0x5B, 0x43]) = Key_right" "readKey (Some [0x1B, 0x5B, 0x44]) = Key_left"
  by (simp_all add: readKey_def CTRL_C_def ENTER_def BACKSPACE_def DEL_def ESCAPE_def)

lemma readKey_xyz:
  "readKey (Some [0x78]) = Key_char (js ''x'')" "readKey (Some [0x79]) = Key_char (js ''y'')"
  "readKey (Some [0x7A]) = Key_char (js ''z'')" "readKey (Some [0x6E]) = Key_char (js ''n'')"
  "readKey (Some [0x59]) = Key_char (js ''Y'')" "readKey (Some [0x4E]) = Key_char (js ''N'')"
  "readKey (Some [127]) = Key_backspace" "readKey (Some [8]) = Key_backspace"
  by (simp_all add: readKey_def CTRL_C_def ENTER_def BACKSPACE_def DEL_def ESCAPE_def
      TextDecoder_decode_def utf8_handler_def utf8_init_def utf16_units_def js_def)

lemma readKey_three: "readKey (Some [0x33]) = Key_char [0x33]"
  by (simp add: readKey_def CTRL_C_def ENTER_def BACKSPACE_def DEL_def ESCAPE_def
      TextDecoder_decode_def utf8_handler_def utf8_init_def utf16_units_def)

lemma parseInt_digit:
  assumes "d \<le> 9"
  shows "parseInt [of_nat (48 + d)] = Some (int d)"
proof -
  from assms have "d \<in> {0, 1, 2, 3, 4, 5, 6, 7, 8, 9}" by auto
  then show ?thesis
    by (elim insertE emptyE)
       (simp_all add: parseInt_def trimStart_def isWhiteSpace_def isDigit_def)
qed

subsection \<open>The result of a loop does not depend on what has been written\<close>

lemma select_loop_outcome:
  "fst (select_loop q opts sel rs w) = fst (select_loop q opts sel rs w')"
proof (induction rs arbitrary: sel w w')
  case Nil
  show ?case by simp
next
  case (Cons r rs)
  show ?case
    by (cases "readKey r"; simp add: Let_def split: option.splits;
        (intro conjI impI allI)?; rule Cons.IH)
qed

lemma input_loop_outcome:
  "fst (input_loop q dv val rs w) = fst (input_loop q dv val rs w')"
proof (induction rs arbitrary: val w w')
  case Nil
  show ?case by simp
next
  case (Cons r rs)
  show ?case
    by (cases "readKey r"; simp add: Let_def split: option.splits;
        (intro conjI impI allI)?; rule Cons.IH)
qed

lemma rating_loop_outcome:
  "fst (rating_loop q lo hi val rs w) = fst (rating_loop q lo hi val rs w')"
proof (induction rs arbitrary: val w w')
  case Nil
  show ?case by simp
next
  case (Cons r rs)
  show ?case
    by (cases "readKey r"; simp add: Let_def split: option.splits;
        (intro conjI impI allI)?; rule Cons.IH)
qed

lemma confirm_loop_outcome:
  "fst (confirm_loop q val rs w) = fst (confirm_loop q val rs w')"
proof (induction rs arbitrary: val w w')
  case Nil
  show ?case by simp
next
  case (Cons r rs)
  show ?case
    by (cases "readKey r"; simp add: Let_def split: option.splits;
        (intro conjI impI allI)?; rule Cons.IH)
qed

lemma select_outcome:
  assumes "isTerminal w" and "options \<noteq> []"
  shows "fst (select q options d w) =
           (case fst (select_loop q options d (stdin w) w') of
              Break s \<Rightarrow> Returned s | Exit c \<Rightarrow> Exited c | Awaiting \<Rightarrow> Blocked)"
  using assms
    select_loop_outcome [where q=q and opts=options and sel=d and rs="stdin w" and w'=w'
      and w="select_render q options d (write_stdout ansi_hideCursor (setRaw True w))"]
  by (auto simp: select_def Let_def split: prod.splits loop_end.splits)

lemma input_outcome:
  assumes "isTerminal w"
  shows "fst (input q dv w) =
           (case fst (input_loop q dv [] (stdin w) w') of
              Break val \<Rightarrow> Returned (if val \<noteq> [] then val else dv)
            | Exit c \<Rightarrow> Exited c | Awaiting \<Rightarrow> Blocked)"
  using assms
    input_loop_outcome [where q=q and dv=dv and val="[]" and rs="stdin w" and w'=w'
      and w="input_render q dv [] (setRaw True w)"]
  by (auto simp: input_def Let_def split: prod.splits loop_end.splits)

lemma rating_outcome:
  assumes "isTerminal w"
  shows "fst (rating q lo hi d w) =
           (case fst (rating_loop q lo hi d (stdin w) w') of
              Break val \<Rightarrow> Returned val | Exit c \<Rightarrow> Exited c | Awaiting \<Rightarrow> Blocked)"
  using assms
    rating_loop_outcome [where q=q and lo=lo and hi=hi and val=d and rs="stdin w" and w'=w'
      and w="rating_render q lo hi d (setRaw True w)"]
  by (auto simp: rating_def Let_def split: prod.splits loop_end.splits)

lemma confirm_outcome:
  assumes "isTerminal w"
  shows "fst (confirm q d w) =
           (case fst (confirm_loop q d (stdin w) w') of
              Break val \<Rightarrow> Returned val | Exit c \<Rightarrow> Exited c | Awaiting \<Rightarrow> Blocked)"
  using assms
    confirm_loop_outcome [where q=q and val=d and rs="stdin w" and w'=w'
      and w="confirm_render q d (setRaw True w)"]
  by (auto simp: confirm_def Let_def split: prod.splits loop_end.splits)

subsection \<open>A key other than enter and the interrupt key keeps the loop going\<close>

lemma select_loop_step:
  assumes "readKey k \<noteq> Key_ctrl_c" "readKey k \<noteq> Key_enter"
  shows "\<exists>sel' w'. select_loop q opts sel (k # rs) w = select_loop q opts sel' rs w'
           \<and> raw w' = raw w \<and> stdin w' = rs"
  using assms
  by (cases "readKey k") (fastforce simp: Let_def split: option.splits)+

lemma input_loop_step:
  assumes "readKey k \<noteq> Key_ctrl_c" "readKey k \<noteq> Key_enter"
  shows "\<exists>val' w'. input_loop q dv val (k # rs) w = input_loop q dv val' rs w'
           \<and> raw w' = raw w \<and> stdin w' = rs"
  using assms
  by (cases "readKey k") (fastforce simp: Let_def split: option.splits)+

lemma rating_loop_step:
  assumes "readKey k \<noteq> Key_ctrl_c" "readKey k \<noteq> Key_enter"
  shows "\<exists>val' w'. rating_loop q lo hi val (k # rs) w = rating_loop q lo hi val' rs w'
           \<and> raw w' = raw w \<and> stdin w' = rs"
  using assms
  by (cases "readKey k") (fastforce simp: Let_def split: option.splits)+

lemma confirm_loop_step:
  assumes "readKey k \<noteq> Key_ctrl_c" "readKey k \<noteq> Key_enter"
  shows "\<exists>val' w'. confirm_loop q val (k # rs) w = confirm_loop q val' rs w'
           \<and> raw w' = raw w \<and> stdin w' = rs"
  using assms
  by (cases "readKey k") (fastforce simp: Let_def split: option.splits)+

subsection \<open>Raw mode along a loop\<close>

lemma select_loop_raw:
  "case select_loop q opts st rs w of
     (Exit c, w') \<Rightarrow> c = 130 \<and> \<not> raw w'
   | (Break v, w') \<Rightarrow> raw w' = raw w
   | (Awaiting, w') \<Rightarrow> raw w' = raw w"
proof (induction rs arbitrary: st w)
  case Nil
  show ?case by simp
next
  case (Cons k rs)
  show ?case
  proof (cases "readKey k = Key_ctrl_c \<or> readKey k = Key_enter")
    case True
    then show ?thesis by (auto simp: Let_def)
  next
    case False
    then obtain st' w' where "select_loop q opts st (k # rs) w = select_loop q opts st' rs w'"
      and "raw w' = raw w"
      using select_loop_step [where k=k and rs=rs and w=w] by blast
    with Cons.IH [where st=st' and w=w'] show ?thesis
      by (auto split: prod.splits loop_end.splits)
  qed
qed

lemma input_loop_raw:
  "case input_loop q dv st rs w of
     (Exit c, w') \<Rightarrow> c = 130 \<and> \<not> raw w'
   | (Break v, w') \<Rightarrow> raw w' = raw w
   | (Awaiting, w') \<Rightarrow> raw w' = raw w"
proof (induction rs arbitrary: st w)
  case Nil
  show ?case by simp
next
  case (Cons k rs)
  show ?case
  proof (cases "readKey k = Key_ctrl_c \<or> readKey k = Key_enter")
    case True
    then show ?thesis by (auto simp: Let_def)
  next
    case False
    then obtain st' w' where "input_loop q dv st (k # rs) w = input_loop q dv st' rs w'"
      and "raw w' = raw w"
      using input_loop_step [where k=k and rs=rs and w=w] by blast
    with Cons.IH [where st=st' and w=w'] show ?thesis
      by (auto split: prod.splits loop_end.splits)
  qed
qed

lemma rating_loop_raw:
  "case rating_loop q lo hi st rs w of
     (Exit c, w') \<Rightarrow> c = 130 \<and> \<not> raw w'
   | (Break v, w') \<Rightarrow> raw w' = raw w
   | (Awaiting, w') \<Rightarrow> raw w' = raw w"
proof (induction rs arbitrary: st w)
  case Nil
  show ?case by simp
next
  case (Cons k rs)
  show ?case
  proof (cases "readKey k = Key_ctrl_c \<or> readKey k = Key_enter")
    case True
    then show ?thesis by (auto simp: Let_def)
  next
    case False
    then obtain st' w' where "rating_loop q lo hi st (k # rs) w = rating_loop q lo hi st' rs w'"
      and "raw w' = raw w"
      using rating_loop_step [where k=k and rs=rs and w=w] by blast
    with Cons.IH [where st=st' and w=w'] show ?thesis
      by (auto split: prod.splits loop_end.splits)
  qed
qed

lemma confirm_loop_raw:
  "case confirm_loop q st rs w of
     (Exit c, w') \<Rightarrow> c = 130 \<and> \<not> raw w'
   | (Break v, w') \<Rightarrow> raw w' = raw w
   | (Awaiting, w') \<Rightarrow> raw w' = raw w"
proof (induction rs arbitrary: st w)
  case Nil
  show ?case by simp
next
  case (Cons k rs)
  show ?case
  proof (cases "readKey k = Key_ctrl_c \<or> readKey k = Key_enter")
    case True
    then show ?thesis by (auto simp: Let_def)
  next
    case False
    then obtain st' w' where "confirm_loop q st (k # rs) w = confirm_loop q st' rs w'"
      and "raw w' = raw w"
      using confirm_loop_step [where k=k and rs=rs and w=w] by blast
    with Cons.IH [where st=st' and w=w'] show ?thesis
      by (auto split: prod.splits loop_end.splits)
  qed
qed

subsection \<open>The interrupt key\<close>

lemma select_loop_interrupt:
  assumes "\<forall>k\<in>set pre. readKey k \<noteq> Key_enter \<and> readKey k \<noteq> Key_ctrl_c"
    and "readKey r = Key_ctrl_c"
  shows "\<exists>w'. select_loop q opts st (pre @ r # post) w = (Exit 130, w') \<and> \<not> raw w' \<and> stdin w' = post \<and> out w' \<noteq> [] \<and> last (out w') = Write ansi_showCursor"
  using assms(1)
proof (induction pre arbitrary: st w)
  case Nil
  show ?case using assms(2) by (simp add: Let_def)
next
  case (Cons k pre)
  then have k: "readKey k \<noteq> Key_ctrl_c" "readKey k \<noteq> Key_enter"
    and pre: "\<forall>k\<in>set pre. readKey k \<noteq> Key_enter \<and> readKey k \<noteq> Key_ctrl_c"
    by simp_all
  obtain st' w' where
    "select_loop q opts st (k # pre @ r # post) w = select_loop q opts st' (pre @ r # post) w'"
    using select_loop_step [OF k, where rs="pre @ r # post" and w=w] by blast
  with Cons.IH [OF pre, where st=st' and w=w'] show ?case by simp
qed

lemma input_loop_interrupt:
  assumes "\<forall>k\<in>set pre. readKey k \<noteq> Key_enter \<and> readKey k \<noteq> Key_ctrl_c"
    and "readKey r = Key_ctrl_c"
  shows "\<exists>w'. input_loop q dv st (pre @ r # post) w = (Exit 130, w') \<and> \<not> raw w' \<and> stdin w' = post "
  using assms(1)
proof (induction pre arbitrary: st w)
  case Nil
  show ?case using assms(2) by (simp add: Let_def)
next
  case (Cons k pre)
  then have k: "readKey k \<noteq> Key_ctrl_c" "readKey k \<noteq> Key_enter"
    and pre: "\<forall>k\<in>set pre. readKey k \<noteq> Key_enter \<and> readKey k \<noteq> Key_ctrl_c"
    by simp_all
  obtain st' w' where
    "input_loop q dv st (k # pre @ r # post) w = input_loop q dv st' (pre @ r # post) w'"
    using input_loop_step [OF k, where rs="pre @ r # post" and w=w] by blast
  with Cons.IH [OF pre, where st=st' and w=w'] show ?case by simp
qed

lemma rating_loop_interrupt:
  assumes "\<forall>k\<in>set pre. readKey k \<noteq> Key_enter \<and> readKey k \<noteq> Key_ctrl_c"
    and "readKey r = Key_ctrl_c"
  shows "\<exists>w'. rating_loop q lo hi st (pre @ r # post) w = (Exit 130, w') \<and> \<not> raw w' \<and> stdin w' = post "
  using assms(1)
proof (induction pre arbitrary: st w)
  case Nil
  show ?case using assms(2) by (simp add: Let_def)
next
  case (Cons k pre)
  then have k: "readKey k \<noteq> Key_ctrl_c" "readKey k \<noteq> Key_enter"
    and pre: "\<forall>k\<in>set pre. readKey k \<noteq> Key_enter \<and> readKey k \<noteq> Key_ctrl_c"
    by simp_all
  obtain st' w' where
    "rating_loop q lo hi st (k # pre @ r # post) w = rating_loop q lo hi st' (pre @ r # post) w'"
    using rating_loop_step [OF k, where rs="pre @ r # post" and w=w] by blast
  with Cons.IH [OF pre, where st=st' and w=w'] show ?case by simp
qed

lemma confirm_loop_interrupt:
  assumes "\<forall>k\<in>set pre. readKey k \<noteq> Key_enter \<and> readKey k \<noteq> Key_ctrl_c"
    and "readKey r = Key_ctrl_c"
  shows "\<exists>w'. confirm_loop q st (pre @ r # post) w = (Exit 130, w') \<and> \<not> raw w' \<and> stdin w' = post "
  using assms(1)
proof (induction pre arbitrary: st w)
  case Nil
  show ?case using assms(2) by (simp add: Let_def)
next
  case (Cons k pre)
  then have k: "readKey k \<noteq> Key_ctrl_c" "readKey k \<noteq> Key_enter"
    and pre: "\<forall>k\<in>set pre. readKey k \<noteq> Key_enter \<and> readKey k \<noteq> Key_ctrl_c"
    by simp_all
  obtain st' w' where
    "confirm_loop q st (k # pre @ r # post) w = confirm_loop q st' (pre @ r # post) w'"
    using confirm_loop_step [OF k, where rs="pre @ r # post" and w=w] by blast
  with Cons.IH [OF pre, where st=st' and w=w'] show ?case by simp
qed

subsection \<open>Write calls of a frame\<close>

lemma foldl_two_writes:
  assumes "\<And>w i. \<exists>a b. out (f w i) = out w @ [Write a, Write b]"
  shows "\<exists>ts. out (foldl f w xs) = out w @ map Write ts \<and> length ts = 2 * length xs"
proof (induction xs arbitrary: w)
  case Nil
  show ?case by simp
next
  case (Cons x xs)
  obtain a b where ab: "out (f w x) = out w @ [Write a, Write b]" using assms by blast
  obtain ts where ts: "out (foldl f (f w x) xs) = out (f w x) @ map Write ts"
    "length ts = 2 * length xs" using Cons.IH by blast
  have "out (foldl f w (x # xs)) = out w @ map Write (a # b # ts)"
    using ab ts by simp
  moreover have "length (a # b # ts) = 2 * length (x # xs)" using ts by simp
  ultimately show ?case by blast
qed

lemma select_render_writes:
  "\<exists>ts. out (select_render question options selected w) = out w @ map Write ts \<and>
        length ts = 2 + 2 * length options"
proof -
  let ?w1 = "write_stdout (question @ LF) (write_stdout (CR @ ansi_clearLine) w)"
  let ?f = "\<lambda>w i.
              (let w = write_stdout ansi_clearLine w
               in if int i = selected
                  then write_stdout (ansi_cyan @ [0x276F, 0x20] @ options ! i @ ansi_reset @ LF) w
                  else write_stdout (js ''  '' @ ansi_dim @ options ! i @ ansi_reset @ LF) w)"
  have "\<And>w i. \<exists>a b. out (?f w i) = out w @ [Write a, Write b]"
    by (simp add: Let_def)
  then obtain ts where ts: "out (foldl ?f ?w1 [0..<length options]) = out ?w1 @ map Write ts"
    "length ts = 2 * length [0..<length options]"
    using foldl_two_writes [of ?f ?w1 "[0..<length options]"] by blast
  have "out (select_render question options selected w) =
          out w @ map Write ((CR @ ansi_clearLine) # (question @ LF) # ts)"
    using ts(1) by (simp add: select_render_def)
  moreover have "length ((CR @ ansi_clearLine) # (question @ LF) # ts) = 2 + 2 * length options"
    using ts(2) by simp
  ultimately show ?thesis by blast
qed

lemma select_redraw_writes:
  assumes "readKey r = Key_down" and "selected < int (length options) - 1"
  shows "\<exists>ts. out (snd (select_loop question options selected [r] w)) = out w @ map Write ts \<and>
           length ts = 3 + 2 * length options"
proof -
  let ?w1 = "select_moveUp options (w\<lparr>stdin := []\<rparr>)"
  obtain ts where ts:
    "out (select_render question options (selected + 1) ?w1) = out ?w1 @ map Write ts"
    "length ts = 2 + 2 * length options"
    using select_render_writes [of question options "selected + 1" ?w1] by blast
  have "out (snd (select_loop question options selected [r] w)) =
          out w @ map Write (ansi_cursorUp (int (length options) + 1) # ts)"
    using assms ts(1) by (simp add: Let_def select_moveUp_def)
  moreover have "length (ansi_cursorUp (int (length options) + 1) # ts) = 3 + 2 * length options"
    using ts(2) by simp
  ultimately show ?thesis by blast
qed

section \<open>Raw mode never leaks\<close>

text \<open>
  C1. On an interactive terminal, every call of select, input, rating and confirm keeps
  the raw-mode discipline: raw mode is engaged while the call waits for a key inside its
  prompt loop, and reads as disengaged when the call has returned and when the process
  has ended after the interrupt key, the only status it ends with being 130. For select
  the call starts in cooked mode or has an option to offer; with no option at all it
  returns at once and does not touch the flag.
\<close>

theorem raw_mode_never_leaks:
  assumes "isTerminal w"
  shows "(options \<noteq> [] \<or> \<not> raw w \<longrightarrow>
            raw_mode_discipline (select question options defaultIndex w)) \<and>
         raw_mode_discipline (input question defaultText w) \<and>
         raw_mode_discipline (rating question minv maxv defaultValue w) \<and>
         raw_mode_discipline (confirm question defaultFlag w)"
proof (intro conjI impI)
  assume pre: "options \<noteq> [] \<or> \<not> raw w"
  show "raw_mode_discipline (select question options defaultIndex w)"
  proof (cases "options = []")
    case True
    with pre show ?thesis by (simp add: select_def raw_mode_discipline_def)
  next
    case False
    with assms
      select_loop_raw [where q=question and opts=options and st=defaultIndex
        and rs="stdin w"
        and w="select_render question options defaultIndex
                 (write_stdout ansi_hideCursor (setRaw True w))"]
    show ?thesis
      by (auto simp: select_def raw_mode_discipline_def Let_def split: prod.splits loop_end.splits)
  qed
next
  from assms
    input_loop_raw [where q=question and dv=defaultText and st="[]" and rs="stdin w"
      and w="input_render question defaultText [] (setRaw True w)"]
  show "raw_mode_discipline (input question defaultText w)"
    by (auto simp: input_def raw_mode_discipline_def Let_def split: prod.splits loop_end.splits)
next
  from assms
    rating_loop_raw [where q=question and lo=minv and hi=maxv and st=defaultValue
      and rs="stdin w" and w="rating_render question minv maxv defaultValue (setRaw True w)"]
  show "raw_mode_discipline (rating question minv maxv defaultValue w)"
    by (auto simp: rating_def raw_mode_discipline_def Let_def split: prod.splits loop_end.splits)
next
  from assms
    confirm_loop_raw [where q=question and st=defaultFlag and rs="stdin w"
      and w="confirm_render question defaultFlag (setRaw True w)"]
  show "raw_mode_discipline (confirm question defaultFlag w)"
    by (auto simp: confirm_def raw_mode_discipline_def Let_def split: prod.splits loop_end.splits)
qed

text \<open>
  The discipline at a concrete terminal: down then enter on a two-option list returns
  index 1 in cooked mode, and with the down key alone the call waits in raw mode.
\<close>

theorem raw_mode_never_leaks_witness:
  "isTerminal (interactive_world [Some [0x1B, 0x5B, 0x42], Some [13]]) \<and>
   raw_mode_discipline
     (select (js ''q'') [js ''a'', js ''b''] 0 (interactive_world [Some [0x1B, 0x5B, 0x42], Some [13]])) \<and>
   raw_mode_discipline (input (js ''q'') [] (interactive_world [Some [0x1B, 0x5B, 0x42], Some [13]])) \<and>
   raw_mode_discipline (rating (js ''q'') 1 5 3 (interactive_world [Some [0x1B, 0x5B, 0x42], Some [13]])) \<and>
   raw_mode_discipline (confirm (js ''q'') False (interactive_world [Some [0x1B, 0x5B, 0x42], Some [13]])) \<and>
   fst (select (js ''q'') [js ''a'', js ''b''] 0 (interactive_world [Some [0x1B, 0x5B, 0x42], Some [13]]))
     = Returned 1 \<and>
   \<not> raw (snd (select (js ''q'') [js ''a'', js ''b''] 0
                (interactive_world [Some [0x1B, 0x5B, 0x42], Some [13]]))) \<and>
   fst (select (js ''q'') [js ''a'', js ''b''] 0 (interactive_world [Some [0x1B, 0x5B, 0x42]]))
     = Blocked \<and>
   raw (snd (select (js ''q'') [js ''a'', js ''b''] 0 (interactive_world [Some [0x1B, 0x5B, 0x42]])))"
  using raw_mode_never_leaks [where w="interactive_world [Some [0x1B, 0x5B, 0x42], Some [13]]"
      and options="[js ''a'', js ''b'']" and question="js ''q''" and defaultIndex=0
      and defaultText="[]" and minv=1 and maxv=5 and defaultValue=3 and defaultFlag=False]
  by (simp add: interactive_world_def select_def Let_def readKey_arrows readKey_enter)

section \<open>The interrupt key ends the process\<close>

text \<open>
  C3. In the interactive path of every widget, when the first key that is enter or the
  interrupt key is the interrupt key, the call does not return: the process ends with
  status 130, raw mode is disengaged at that point, nothing is read after the interrupt
  key, and for select, the widget that hid the cursor, the last thing written is the
  show-cursor sequence.
\<close>

theorem interrupt_is_fatal:
  assumes "isTerminal w" and "stdin w = pre @ r # post"
    and "\<forall>k\<in>set pre. readKey k \<noteq> Key_enter \<and> readKey k \<noteq> Key_ctrl_c"
    and "readKey r = Key_ctrl_c"
  shows "(options \<noteq> [] \<longrightarrow>
           (\<exists>w'. select question options defaultIndex w = (Exited 130, w') \<and> \<not> raw w' \<and>
                 out w' \<noteq> [] \<and> last (out w') = Write ansi_showCursor \<and> stdin w' = post)) \<and>
         (\<exists>w'. input question defaultText w = (Exited 130, w') \<and> \<not> raw w' \<and> stdin w' = post) \<and>
         (\<exists>w'. rating question minv maxv defaultValue w = (Exited 130, w') \<and> \<not> raw w' \<and>
               stdin w' = post) \<and>
         (\<exists>w'. confirm question defaultFlag w = (Exited 130, w') \<and> \<not> raw w' \<and> stdin w' = post)"
proof (intro conjI impI)
  assume "options \<noteq> []"
  with assms(1,2)
    select_loop_interrupt [OF assms(3,4), where q=question and opts=options and st=defaultIndex
      and post=post
      and w="select_render question options defaultIndex
               (write_stdout ansi_hideCursor (setRaw True w))"]
  show "\<exists>w'. select question options defaultIndex w = (Exited 130, w') \<and> \<not> raw w' \<and>
          out w' \<noteq> [] \<and> last (out w') = Write ansi_showCursor \<and> stdin w' = post"
    by (auto simp: select_def Let_def)
next
  from assms(1,2)
    input_loop_interrupt [OF assms(3,4), where q=question and dv=defaultText and st="[]"
      and post=post and w="input_render question defaultText [] (setRaw True w)"]
  show "\<exists>w'. input question defaultText w = (Exited 130, w') \<and> \<not> raw w' \<and> stdin w' = post"
    by (auto simp: input_def Let_def)
next
  from assms(1,2)
    rating_loop_interrupt [OF assms(3,4), where q=question and lo=minv and hi=maxv
      and st=defaultValue and post=post
      and w="rating_render question minv maxv defaultValue (setRaw True w)"]
  show "\<exists>w'. rating question minv maxv defaultValue w = (Exited 130, w') \<and> \<not> raw w' \<and>
          stdin w' = post"
    by (auto simp: rating_def Let_def)
next
  from assms(1,2)
    confirm_loop_interrupt [OF assms(3,4), where q=question and st=defaultFlag and post=post
      and w="confirm_render question defaultFlag (setRaw True w)"]
  show "\<exists>w'. confirm question defaultFlag w = (Exited 130, w') \<and> \<not> raw w' \<and> stdin w' = post"
    by (auto simp: confirm_def Let_def)
qed

text \<open>Down, then the interrupt key, then an enter that is never read.\<close>

theorem interrupt_is_fatal_witness:
  "fst (select (js ''q'') [js ''a'', js ''b''] 0
         (interactive_world [Some [0x1B, 0x5B, 0x42], Some [3], Some [13]])) = Exited 130 \<and>
   \<not> raw (snd (select (js ''q'') [js ''a'', js ''b''] 0
         (interactive_world [Some [0x1B, 0x5B, 0x42], Some [3], Some [13]]))) \<and>
   last (out (snd (select (js ''q'') [js ''a'', js ''b''] 0
         (interactive_world [Some [0x1B, 0x5B, 0x42], Some [3], Some [13]])))) = Write ansi_showCursor \<and>
   stdin (snd (select (js ''q'') [js ''a'', js ''b''] 0
         (interactive_world [Some [0x1B, 0x5B, 0x42], Some [3], Some [13]]))) = [Some [13]] \<and>
   fst (input (js ''q'') [] (interactive_world [Some [0x1B, 0x5B, 0x42], Some [3], Some [13]]))
     = Exited 130 \<and>
   fst (rating (js ''q'') 1 5 3 (interactive_world [Some [0x1B, 0x5B, 0x42], Some [3], Some [13]]))
     = Exited 130 \<and>
   fst (confirm (js ''q'') False (interactive_world [Some [0x1B, 0x5B, 0x42], Some [3], Some [13]]))
     = Exited 130"
proof -
  let ?W = "interactive_world [Some [0x1B, 0x5B, 0x42], Some [3], Some [13]]"
  have h1: "isTerminal ?W" by (simp add: interactive_world_def)
  have h2: "stdin ?W = [Some [0x1B, 0x5B, 0x42]] @ Some [3] # [Some [13]]"
    by (simp add: interactive_world_def)
  have h3: "\<forall>k\<in>set [Some [0x1B, 0x5B, 0x42 :: byte]]. readKey k \<noteq> Key_enter \<and> readKey k \<noteq> Key_ctrl_c"
    by (simp add: readKey_arrows)
  have h4: "readKey (Some [3]) = Key_ctrl_c" by (rule readKey_ctrl_c)
  have ne: "[js ''a'', js ''b''] \<noteq> []" by simp
  from interrupt_is_fatal [OF h1 h2 h3 h4, where options="[js ''a'', js ''b'']"
      and question="js ''q''" and defaultIndex=0 and defaultText="[]" and minv=1 and maxv=5
      and defaultValue=3 and defaultFlag=False] ne
  show ?thesis by auto
qed

section \<open>Transition tables\<close>

subsection \<open>Select\<close>

text \<open>
  C4. Interactive select, with the selected index inside the option list: after up the
  loop goes on from the index less one, and after down from the index plus one, both
  clamped to the range from 0 to the last index; after a digit key between 1 and the
  number of options it goes on from the digit less one; enter leaves the loop with the
  selected index, so that a call answered by enter alone returns the default index. With
  five options, four downs from index 0 and enter return 4, and so do five downs and enter.
  Going on from an index is stated on the results: what the loop gives on the key and the
  following reads is what it gives on the following reads from the new index, whatever
  has been written.
\<close>

theorem select_transition_table:
  assumes "0 \<le> selected" and "selected < int (length options)"
  shows
   "(readKey r = Key_up \<longrightarrow>
       fst (select_loop question options selected (r # rs) w) =
       fst (select_loop question options (max 0 (selected - 1)) rs w')) \<and>
    (readKey r = Key_down \<longrightarrow>
       fst (select_loop question options selected (r # rs) w) =
       fst (select_loop question options (min (int (length options) - 1) (selected + 1)) rs w')) \<and>
    (1 \<le> d \<and> d \<le> 9 \<and> d \<le> length options \<and> readKey r = Key_char [of_nat (48 + d)] \<longrightarrow>
       fst (select_loop question options selected (r # rs) w) =
       fst (select_loop question options (int d - 1) rs w')) \<and>
    (readKey r = Key_enter \<longrightarrow>
       fst (select_loop question options selected (r # rs) w) = Break selected) \<and>
    (isTerminal w \<and> stdin w = r # rs \<and> readKey r = Key_enter \<longrightarrow>
       fst (select question options selected w) = Returned selected) \<and>
    (isTerminal w \<and> length options = 5 \<and>
     stdin w = [Some [0x1B, 0x5B, 0x42], Some [0x1B, 0x5B, 0x42], Some [0x1B, 0x5B, 0x42],
                Some [0x1B, 0x5B, 0x42], Some [13]] \<longrightarrow>
       fst (select question options 0 w) = Returned 4) \<and>
    (isTerminal w \<and> length options = 5 \<and>
     stdin w = [Some [0x1B, 0x5B, 0x42], Some [0x1B, 0x5B, 0x42], Some [0x1B, 0x5B, 0x42],
                Some [0x1B, 0x5B, 0x42], Some [0x1B, 0x5B, 0x42], Some [13]] \<longrightarrow>
       fst (select question options 0 w) = Returned 4)"
proof (intro conjI impI)
  assume k: "readKey r = Key_up"
  show "fst (select_loop question options selected (r # rs) w) =
       fst (select_loop question options (max 0 (selected - 1)) rs w')"
  proof (cases "selected > 0")
    case True
    then have m: "max 0 (selected - 1) = selected - 1" by simp
    show ?thesis unfolding m using k True by (simp add: Let_def) (rule select_loop_outcome)
  next
    case False
    with assms have m: "max 0 (selected - 1) = selected" by simp
    show ?thesis unfolding m using k False by (simp add: Let_def) (rule select_loop_outcome)
  qed
next
  assume k: "readKey r = Key_down"
  show "fst (select_loop question options selected (r # rs) w) =
       fst (select_loop question options (min (int (length options) - 1) (selected + 1)) rs w')"
  proof (cases "selected < int (length options) - 1")
    case True
    then have m: "min (int (length options) - 1) (selected + 1) = selected + 1" by simp
    show ?thesis unfolding m using k True by (simp add: Let_def) (rule select_loop_outcome)
  next
    case False
    with assms have m: "min (int (length options) - 1) (selected + 1) = selected" by simp
    show ?thesis unfolding m using k False by (simp add: Let_def) (rule select_loop_outcome)
  qed
next
  assume a: "1 \<le> d \<and> d \<le> 9 \<and> d \<le> length options \<and> readKey r = Key_char [of_nat (48 + d)]"
  then have "d \<le> 9" by simp
  then have "parseInt [of_nat (48 + d)] = Some (int d)" by (rule parseInt_digit)
  with a show "fst (select_loop question options selected (r # rs) w) =
       fst (select_loop question options (int d - 1) rs w')"
    by (simp add: Let_def) (rule select_loop_outcome)
next
  assume "readKey r = Key_enter"
  then show "fst (select_loop question options selected (r # rs) w) = Break selected"
    by (simp add: Let_def)
next
  assume a: "isTerminal w \<and> stdin w = r # rs \<and> readKey r = Key_enter"
  from assms have "options \<noteq> []" by auto
  with a show "fst (select question options selected w) = Returned selected"
    by (simp add: select_outcome [where w'=w] Let_def)
next
  assume a: "isTerminal w \<and> length options = 5 \<and>
     stdin w = [Some [0x1B, 0x5B, 0x42], Some [0x1B, 0x5B, 0x42], Some [0x1B, 0x5B, 0x42],
                Some [0x1B, 0x5B, 0x42], Some [13]]"
  then have "options \<noteq> []" by auto
  with a show "fst (select question options 0 w) = Returned 4"
    by (simp add: select_outcome [where w'=w] Let_def readKey_arrows readKey_enter)
next
  assume a: "isTerminal w \<and> length options = 5 \<and>
     stdin w = [Some [0x1B, 0x5B, 0x42], Some [0x1B, 0x5B, 0x42], Some [0x1B, 0x5B, 0x42],
                Some [0x1B, 0x5B, 0x42], Some [0x1B, 0x5B, 0x42], Some [13]]"
  then have "options \<noteq> []" by auto
  with a show "fst (select question options 0 w) = Returned 4"
    by (simp add: select_outcome [where w'=w] Let_def readKey_arrows readKey_enter)
qed

text \<open>The table at a list of five options.\<close>

theorem select_transition_table_witness:
  "fst (select_loop (js ''q'') [js ''a'', js ''b'', js ''c'', js ''d'', js ''e''] 2
         [Some [0x1B, 0x5B, 0x41], Some [13]] (interactive_world [])) = Break 1 \<and>
   fst (select_loop (js ''q'') [js ''a'', js ''b'', js ''c'', js ''d'', js ''e''] 4
         [Some [0x1B, 0x5B, 0x42], Some [13]] (interactive_world [])) = Break 4 \<and>
   fst (select_loop (js ''q'') [js ''a'', js ''b'', js ''c'', js ''d'', js ''e''] 0
         [Some [0x33], Some [13]] (interactive_world [])) = Break 2 \<and>
   fst (select (js ''q'') [js ''a'', js ''b'', js ''c'', js ''d'', js ''e''] 2
         (interactive_world [Some [13]])) = Returned 2 \<and>
   fst (select (js ''q'') [js ''a'', js ''b'', js ''c'', js ''d'', js ''e''] 0
         (interactive_world [Some [0x1B, 0x5B, 0x42], Some [0x1B, 0x5B, 0x42],
            Some [0x1B, 0x5B, 0x42], Some [0x1B, 0x5B, 0x42], Some [13]])) = Returned 4 \<and>
   fst (select (js ''q'') [js ''a'', js ''b'', js ''c'', js ''d'', js ''e''] 0
         (interactive_world [Some [0x1B, 0x5B, 0x42], Some [0x1B, 0x5B, 0x42],
            Some [0x1B, 0x5B, 0x42], Some [0x1B, 0x5B, 0x42], Some [0x1B, 0x5B, 0x42],
            Some [13]])) = Returned 4"
  using
    select_transition_table [where selected=2 and r="Some [0x1B, 0x5B, 0x41]"
      and options="[js ''a'', js ''b'', js ''c'', js ''d'', js ''e'']" and question="js ''q''"
      and rs="[Some [13]]" and w="interactive_world []" and w'="interactive_world []" and d=3]
    select_transition_table [where selected=4 and r="Some [0x1B, 0x5B, 0x42]"
      and options="[js ''a'', js ''b'', js ''c'', js ''d'', js ''e'']" and question="js ''q''"
      and rs="[Some [13]]" and w="interactive_world []" and w'="interactive_world []" and d=3]
    select_transition_table [where selected=0 and r="Some [0x33]"
      and options="[js ''a'', js ''b'', js ''c'', js ''d'', js ''e'']" and question="js ''q''"
      and rs="[Some [13]]" and w="interactive_world []" and w'="interactive_world []" and d=3]
    select_transition_table [where selected=2 and r="Some [13]"
      and options="[js ''a'', js ''b'', js ''c'', js ''d'', js ''e'']" and question="js ''q''"
      and rs="[]" and w="interactive_world [Some [13]]" and w'="interactive_world []" and d=3]
    select_transition_table [where selected=0 and r="Some [13]"
      and options="[js ''a'', js ''b'', js ''c'', js ''d'', js ''e'']" and question="js ''q''"
      and rs="[]" and w'="interactive_world []" and d=3
      and w="interactive_world [Some [0x1B, 0x5B, 0x42], Some [0x1B, 0x5B, 0x42],
            Some [0x1B, 0x5B, 0x42], Some [0x1B, 0x5B, 0x42], Some [13]]"]
    select_transition_table [where selected=0 and r="Some [13]"
      and options="[js ''a'', js ''b'', js ''c'', js ''d'', js ''e'']" and question="js ''q''"
      and rs="[]" and w'="interactive_world []" and d=3
      and w="interactive_world [Some [0x1B, 0x5B, 0x42], Some [0x1B, 0x5B, 0x42],
            Some [0x1B, 0x5B, 0x42], Some [0x1B, 0x5B, 0x42], Some [0x1B, 0x5B, 0x42],
            Some [13]]"]
  by (simp add: interactive_world_def readKey_arrows readKey_enter readKey_three Let_def)

subsection \<open>Input\<close>

text \<open>
  C5. Interactive input: a character key appends its text to the buffer; backspace drops
  the last character of a non-empty buffer and leaves an empty one empty; enter leaves the
  loop with the buffer, and the call returns the buffer if it is not empty and the default
  otherwise. With the default my-experiment, enter alone returns my-experiment, and x, y,
  z, backspace, enter return xy. A character of the buffer is a UTF-16 code unit, as in
  the source's string type.
\<close>

theorem input_transition_table:
  "(readKey r = Key_char chars \<longrightarrow>
      fst (input_loop question defaultValue buffer (r # rs) w) =
      fst (input_loop question defaultValue (buffer @ chars) rs w')) \<and>
   (readKey r = Key_backspace \<longrightarrow>
      fst (input_loop question defaultValue buffer (r # rs) w) =
      fst (input_loop question defaultValue (if buffer \<noteq> [] then butlast buffer else buffer) rs w')) \<and>
   (readKey r = Key_enter \<longrightarrow>
      fst (input_loop question defaultValue buffer (r # rs) w) = Break buffer) \<and>
   (isTerminal w \<and> fst (input_loop question defaultValue [] (stdin w) w') = Break buffer \<longrightarrow>
      fst (input question defaultValue w) =
      Returned (if buffer \<noteq> [] then buffer else defaultValue)) \<and>
   (isTerminal w \<and> stdin w = [Some [13]] \<longrightarrow>
      fst (input question (js ''my-experiment'') w) = Returned (js ''my-experiment'')) \<and>
   (isTerminal w \<and> stdin w = [Some [0x78], Some [0x79], Some [0x7A], Some [127], Some [13]] \<longrightarrow>
      fst (input question (js ''my-experiment'') w) = Returned (js ''xy''))"
proof (intro conjI impI)
  assume "readKey r = Key_char chars"
  then show "fst (input_loop question defaultValue buffer (r # rs) w) =
      fst (input_loop question defaultValue (buffer @ chars) rs w')"
    by (simp add: Let_def) (rule input_loop_outcome)
next
  assume "readKey r = Key_backspace"
  then show "fst (input_loop question defaultValue buffer (r # rs) w) =
      fst (input_loop question defaultValue (if buffer \<noteq> [] then butlast buffer else buffer) rs w')"
    by (cases "buffer = []"; simp add: Let_def) (rule input_loop_outcome)+
next
  assume "readKey r = Key_enter"
  then show "fst (input_loop question defaultValue buffer (r # rs) w) = Break buffer"
    by (simp add: Let_def)
next
  assume "isTerminal w \<and> fst (input_loop question defaultValue [] (stdin w) w') = Break buffer"
  then show "fst (input question defaultValue w) =
      Returned (if buffer \<noteq> [] then buffer else defaultValue)"
    by (simp add: input_outcome [where w'=w'])
next
  assume "isTerminal w \<and> stdin w = [Some [13]]"
  then show "fst (input question (js ''my-experiment'') w) = Returned (js ''my-experiment'')"
    by (simp add: input_outcome [where w'=w] Let_def readKey_enter)
next
  assume "isTerminal w \<and> stdin w = [Some [0x78], Some [0x79], Some [0x7A], Some [127], Some [13]]"
  then show "fst (input question (js ''my-experiment'') w) = Returned (js ''xy'')"
    by (simp add: input_outcome [where w'=w] Let_def readKey_enter readKey_xyz js_def)
qed

text \<open>The table at concrete buffers.\<close>

theorem input_transition_table_witness:
  "fst (input_loop (js ''q'') [] (js ''a'') [Some [0x78], Some [13]] (interactive_world []))
     = Break (js ''ax'') \<and>
   fst (input_loop (js ''q'') [] (js ''ab'') [Some [127], Some [13]] (interactive_world []))
     = Break (js ''a'') \<and>
   fst (input_loop (js ''q'') [] [] [Some [8], Some [13]] (interactive_world [])) = Break [] \<and>
   fst (input (js ''q'') (js ''dflt'') (interactive_world [Some [0x78], Some [13]]))
     = Returned (js ''x'') \<and>
   fst (input (js ''q'') (js ''my-experiment'') (interactive_world [Some [13]]))
     = Returned (js ''my-experiment'') \<and>
   fst (input (js ''q'') (js ''my-experiment'')
         (interactive_world [Some [0x78], Some [0x79], Some [0x7A], Some [127], Some [13]]))
     = Returned (js ''xy'')"
  using
    input_transition_table [where r="Some [0x78]" and chars="js ''x''" and question="js ''q''"
      and defaultValue="[]" and buffer="js ''a''" and rs="[Some [13]]"
      and w="interactive_world []" and w'="interactive_world []"]
    input_transition_table [where r="Some [127]" and chars="js ''x''" and question="js ''q''"
      and defaultValue="[]" and buffer="js ''ab''" and rs="[Some [13]]"
      and w="interactive_world []" and w'="interactive_world []"]
    input_transition_table [where r="Some [8]" and chars="js ''x''" and question="js ''q''"
      and defaultValue="[]" and buffer="[]" and rs="[Some [13]]"
      and w="interactive_world []" and w'="interactive_world []"]
    input_transition_table [where r="Some [13]" and chars="js ''x''" and question="js ''q''"
      and defaultValue="js ''dflt''" and buffer="js ''x''" and rs="[]"
      and w="interactive_world [Some [0x78], Some [13]]" and w'="interactive_world []"]
    input_transition_table [where r="Some [13]" and chars="js ''x''" and question="js ''q''"
      and defaultValue="[]" and buffer="[]" and rs="[]"
      and w="interactive_world [Some [13]]" and w'="interactive_world []"]
    input_transition_table [where r="Some [13]" and chars="js ''x''" and question="js ''q''"
      and defaultValue="[]" and buffer="[]" and rs="[]" and w'="interactive_world []"
      and w="interactive_world [Some [0x78], Some [0x79], Some [0x7A], Some [127], Some [13]]"]
  by (simp add: interactive_world_def readKey_enter readKey_xyz js_def Let_def)

text \<open>
  The unit of the buffer shows on a character outside the basic plane: its four bytes
  arrive as one key and are two code units of the buffer, and one backspace takes the
  second of them away.
\<close>

lemma readKey_astral:
  "readKey (Some [0xF0, 0x9F, 0x98, 0x80]) = Key_char [0xD83D, 0xDE00]"
  by (simp add: readKey_def CTRL_C_def ENTER_def BACKSPACE_def DEL_def ESCAPE_def
      TextDecoder_decode_def utf8_handler_def utf8_init_def utf16_units_def)

lemma input_backspace_code_unit:
  "fst (input question defaultValue
     (interactive_world [Some [0xF0, 0x9F, 0x98, 0x80], Some [127], Some [13]]))
   = Returned [0xD83D]"
  by (simp add: input_outcome [where w'="interactive_world []"] interactive_world_def
      readKey_astral readKey_xyz readKey_enter Let_def)

subsection \<open>Rating\<close>

text \<open>
  C6. Interactive rating, with the value between the minimum and the maximum: after left
  or down the loop goes on from the value less one, clamped to the minimum; after right or
  up from the value plus one, clamped to the maximum; after a digit key within the range
  from that digit; enter leaves the loop with the value, which the call returns. With
  minimum 1, maximum 5 and default 3, left, left, enter return 1, and a third left before
  enter still returns 1.
\<close>

theorem rating_transition_table:
  assumes "minv \<le> val" and "val \<le> maxv"
  shows
   "(readKey r = Key_left \<or> readKey r = Key_down \<longrightarrow>
       fst (rating_loop question minv maxv val (r # rs) w) =
       fst (rating_loop question minv maxv (max minv (val - 1)) rs w')) \<and>
    (readKey r = Key_right \<or> readKey r = Key_up \<longrightarrow>
       fst (rating_loop question minv maxv val (r # rs) w) =
       fst (rating_loop question minv maxv (min maxv (val + 1)) rs w')) \<and>
    (d \<le> 9 \<and> minv \<le> int d \<and> int d \<le> maxv \<and> readKey r = Key_char [of_nat (48 + d)] \<longrightarrow>
       fst (rating_loop question minv maxv val (r # rs) w) =
       fst (rating_loop question minv maxv (int d) rs w')) \<and>
    (readKey r = Key_enter \<longrightarrow>
       fst (rating_loop question minv maxv val (r # rs) w) = Break val) \<and>
    (isTerminal w \<and> stdin w = r # rs \<and> readKey r = Key_enter \<longrightarrow>
       fst (rating question minv maxv val w) = Returned val) \<and>
    (isTerminal w \<and> stdin w = [Some [0x1B, 0x5B, 0x44], Some [0x1B, 0x5B, 0x44], Some [13]] \<longrightarrow>
       fst (rating question 1 5 3 w) = Returned 1) \<and>
    (isTerminal w \<and>
     stdin w = [Some [0x1B, 0x5B, 0x44], Some [0x1B, 0x5B, 0x44], Some [0x1B, 0x5B, 0x44],
                Some [13]] \<longrightarrow>
       fst (rating question 1 5 3 w) = Returned 1)"
proof (intro conjI impI)
  assume k: "readKey r = Key_left \<or> readKey r = Key_down"
  show "fst (rating_loop question minv maxv val (r # rs) w) =
       fst (rating_loop question minv maxv (max minv (val - 1)) rs w')"
  proof (cases "val > minv")
    case True
    then have m: "max minv (val - 1) = val - 1" by simp
    show ?thesis unfolding m using k True by (auto simp: Let_def intro: rating_loop_outcome)
  next
    case False
    with assms have m: "max minv (val - 1) = val" by simp
    show ?thesis unfolding m using k False assms
      by (auto simp: Let_def intro: rating_loop_outcome)
  qed
next
  assume k: "readKey r = Key_right \<or> readKey r = Key_up"
  show "fst (rating_loop question minv maxv val (r # rs) w) =
       fst (rating_loop question minv maxv (min maxv (val + 1)) rs w')"
  proof (cases "val < maxv")
    case True
    then have m: "min maxv (val + 1) = val + 1" by simp
    show ?thesis unfolding m using k True assms
      by (auto simp: Let_def intro: rating_loop_outcome)
  next
    case False
    with assms have m: "min maxv (val + 1) = val" by simp
    show ?thesis unfolding m using k False assms
      by (auto simp: Let_def intro: rating_loop_outcome)
  qed
next
  assume a: "d \<le> 9 \<and> minv \<le> int d \<and> int d \<le> maxv \<and> readKey r = Key_char [of_nat (48 + d)]"
  then have "d \<le> 9" by simp
  then have "parseInt [of_nat (48 + d)] = Some (int d)" by (rule parseInt_digit)
  with a show "fst (rating_loop question minv maxv val (r # rs) w) =
       fst (rating_loop question minv maxv (int d) rs w')"
    by (simp add: Let_def) (rule rating_loop_outcome)
next
  assume "readKey r = Key_enter"
  then show "fst (rating_loop question minv maxv val (r # rs) w) = Break val"
    by (simp add: Let_def)
next
  assume "isTerminal w \<and> stdin w = r # rs \<and> readKey r = Key_enter"
  then show "fst (rating question minv maxv val w) = Returned val"
    by (simp add: rating_outcome [where w'=w] Let_def)
next
  assume "isTerminal w \<and> stdin w = [Some [0x1B, 0x5B, 0x44], Some [0x1B, 0x5B, 0x44], Some [13]]"
  then show "fst (rating question 1 5 3 w) = Returned 1"
    by (simp add: rating_outcome [where w'=w] Let_def readKey_arrows readKey_enter)
next
  assume "isTerminal w \<and>
     stdin w = [Some [0x1B, 0x5B, 0x44], Some [0x1B, 0x5B, 0x44], Some [0x1B, 0x5B, 0x44],
                Some [13]]"
  then show "fst (rating question 1 5 3 w) = Returned 1"
    by (simp add: rating_outcome [where w'=w] Let_def readKey_arrows readKey_enter)
qed

text \<open>The table on the scale from 1 to 5.\<close>

theorem rating_transition_table_witness:
  "fst (rating_loop (js ''q'') 1 5 3 [Some [0x1B, 0x5B, 0x44], Some [13]] (interactive_world []))
     = Break 2 \<and>
   fst (rating_loop (js ''q'') 1 5 1 [Some [0x1B, 0x5B, 0x42], Some [13]] (interactive_world []))
     = Break 1 \<and>
   fst (rating_loop (js ''q'') 1 5 4 [Some [0x1B, 0x5B, 0x43], Some [13]] (interactive_world []))
     = Break 5 \<and>
   fst (rating_loop (js ''q'') 1 5 5 [Some [0x1B, 0x5B, 0x41], Some [13]] (interactive_world []))
     = Break 5 \<and>
   fst (rating_loop (js ''q'') 1 5 5 [Some [0x33], Some [13]] (interactive_world []))
     = Break 3 \<and>
   fst (rating (js ''q'') 1 5 3 (interactive_world [Some [13]])) = Returned 3 \<and>
   fst (rating (js ''q'') 1 5 3
         (interactive_world [Some [0x1B, 0x5B, 0x44], Some [0x1B, 0x5B, 0x44], Some [13]]))
     = Returned 1 \<and>
   fst (rating (js ''q'') 1 5 3
         (interactive_world [Some [0x1B, 0x5B, 0x44], Some [0x1B, 0x5B, 0x44],
            Some [0x1B, 0x5B, 0x44], Some [13]]))
     = Returned 1"
  using
    rating_transition_table [where minv=1 and maxv=5 and val=3 and r="Some [0x1B, 0x5B, 0x44]"
      and question="js ''q''" and rs="[Some [13]]" and d=3
      and w="interactive_world []" and w'="interactive_world []"]
    rating_transition_table [where minv=1 and maxv=5 and val=1 and r="Some [0x1B, 0x5B, 0x42]"
      and question="js ''q''" and rs="[Some [13]]" and d=3
      and w="interactive_world []" and w'="interactive_world []"]
    rating_transition_table [where minv=1 and maxv=5 and val=4 and r="Some [0x1B, 0x5B, 0x43]"
      and question="js ''q''" and rs="[Some [13]]" and d=3
      and w="interactive_world []" and w'="interactive_world []"]
    rating_transition_table [where minv=1 and maxv=5 and val=5 and r="Some [0x1B, 0x5B, 0x41]"
      and question="js ''q''" and rs="[Some [13]]" and d=3
      and w="interactive_world []" and w'="interactive_world []"]
    rating_transition_table [where minv=1 and maxv=5 and val=5 and r="Some [0x33]"
      and question="js ''q''" and rs="[Some [13]]" and d=3
      and w="interactive_world []" and w'="interactive_world []"]
    rating_transition_table [where minv=1 and maxv=5 and val=3 and r="Some [13]"
      and question="js ''q''" and rs="[]" and d=3
      and w="interactive_world [Some [13]]" and w'="interactive_world []"]
    rating_transition_table [where minv=1 and maxv=5 and val=3 and r="Some [13]"
      and question="js ''q''" and rs="[]" and d=3 and w'="interactive_world []"
      and w="interactive_world [Some [0x1B, 0x5B, 0x44], Some [0x1B, 0x5B, 0x44], Some [13]]"]
    rating_transition_table [where minv=1 and maxv=5 and val=3 and r="Some [13]"
      and question="js ''q''" and rs="[]" and d=3 and w'="interactive_world []"
      and w="interactive_world [Some [0x1B, 0x5B, 0x44], Some [0x1B, 0x5B, 0x44],
            Some [0x1B, 0x5B, 0x44], Some [13]]"]
  by (simp add: interactive_world_def readKey_arrows readKey_enter readKey_three Let_def)

subsection \<open>Confirm\<close>

text \<open>
  C7. Interactive confirm: after any of up, down, left and right the loop goes on from the
  negated value; after the character key y or Y from true, after n or N from false; enter
  leaves the loop with the value, so that a call answered by enter alone returns the
  default, whichever it is. With the default false, y then enter return true; with the
  default true, n then enter return false.
\<close>

theorem confirm_transition_table:
  "(readKey r \<in> {Key_up, Key_down, Key_left, Key_right} \<longrightarrow>
      fst (confirm_loop question val (r # rs) w) = fst (confirm_loop question (\<not> val) rs w')) \<and>
   (readKey r = Key_char (js ''y'') \<or> readKey r = Key_char (js ''Y'') \<longrightarrow>
      fst (confirm_loop question val (r # rs) w) = fst (confirm_loop question True rs w')) \<and>
   (readKey r = Key_char (js ''n'') \<or> readKey r = Key_char (js ''N'') \<longrightarrow>
      fst (confirm_loop question val (r # rs) w) = fst (confirm_loop question False rs w')) \<and>
   (readKey r = Key_enter \<longrightarrow>
      fst (confirm_loop question val (r # rs) w) = Break val) \<and>
   (isTerminal w \<and> stdin w = r # rs \<and> readKey r = Key_enter \<longrightarrow>
      fst (confirm question val w) = Returned val) \<and>
   (isTerminal w \<and> stdin w = [Some [0x79], Some [13]] \<longrightarrow>
      fst (confirm question False w) = Returned True) \<and>
   (isTerminal w \<and> stdin w = [Some [0x6E], Some [13]] \<longrightarrow>
      fst (confirm question True w) = Returned False)"
proof (intro conjI impI)
  assume "readKey r \<in> {Key_up, Key_down, Key_left, Key_right}"
  then show "fst (confirm_loop question val (r # rs) w) = fst (confirm_loop question (\<not> val) rs w')"
    by (auto simp: Let_def intro: confirm_loop_outcome)
next
  assume "readKey r = Key_char (js ''y'') \<or> readKey r = Key_char (js ''Y'')"
  then show "fst (confirm_loop question val (r # rs) w) = fst (confirm_loop question True rs w')"
    by (auto simp: Let_def toLowerCase_def js_def intro: confirm_loop_outcome)
next
  assume "readKey r = Key_char (js ''n'') \<or> readKey r = Key_char (js ''N'')"
  then show "fst (confirm_loop question val (r # rs) w) = fst (confirm_loop question False rs w')"
    by (auto simp: Let_def toLowerCase_def js_def intro: confirm_loop_outcome)
next
  assume "readKey r = Key_enter"
  then show "fst (confirm_loop question val (r # rs) w) = Break val"
    by (simp add: Let_def)
next
  assume "isTerminal w \<and> stdin w = r # rs \<and> readKey r = Key_enter"
  then show "fst (confirm question val w) = Returned val"
    by (simp add: confirm_outcome [where w'=w] Let_def)
next
  assume "isTerminal w \<and> stdin w = [Some [0x79], Some [13]]"
  then show "fst (confirm question False w) = Returned True"
    by (simp add: confirm_outcome [where w'=w] Let_def readKey_enter readKey_xyz
        toLowerCase_def js_def)
next
  assume "isTerminal w \<and> stdin w = [Some [0x6E], Some [13]]"
  then show "fst (confirm question True w) = Returned False"
    by (simp add: confirm_outcome [where w'=w] Let_def readKey_enter readKey_xyz
        toLowerCase_def js_def)
qed

text \<open>The table at concrete keys.\<close>

theorem confirm_transition_table_witness:
  "fst (confirm_loop (js ''q'') False [Some [0x1B, 0x5B, 0x44], Some [13]] (interactive_world []))
     = Break True \<and>
   fst (confirm_loop (js ''q'') True [Some [0x1B, 0x5B, 0x41], Some [13]] (interactive_world []))
     = Break False \<and>
   fst (confirm_loop (js ''q'') False [Some [0x59], Some [13]] (interactive_world []))
     = Break True \<and>
   fst (confirm_loop (js ''q'') True [Some [0x4E], Some [13]] (interactive_world []))
     = Break False \<and>
   fst (confirm (js ''q'') True (interactive_world [Some [13]])) = Returned True \<and>
   fst (confirm (js ''q'') False (interactive_world [Some [13]])) = Returned False \<and>
   fst (confirm (js ''q'') False (interactive_world [Some [0x79], Some [13]])) = Returned True \<and>
   fst (confirm (js ''q'') True (interactive_world [Some [0x6E], Some [13]])) = Returned False"
  using
    confirm_transition_table [where val=False and r="Some [0x1B, 0x5B, 0x44]"
      and question="js ''q''" and rs="[Some [13]]"
      and w="interactive_world []" and w'="interactive_world []"]
    confirm_transition_table [where val=True and r="Some [0x1B, 0x5B, 0x41]"
      and question="js ''q''" and rs="[Some [13]]"
      and w="interactive_world []" and w'="interactive_world []"]
    confirm_transition_table [where val=False and r="Some [0x59]"
      and question="js ''q''" and rs="[Some [13]]"
      and w="interactive_world []" and w'="interactive_world []"]
    confirm_transition_table [where val=True and r="Some [0x4E]"
      and question="js ''q''" and rs="[Some [13]]"
      and w="interactive_world []" and w'="interactive_world []"]
    confirm_transition_table [where val=True and r="Some [13]"
      and question="js ''q''" and rs="[]"
      and w="interactive_world [Some [13]]" and w'="interactive_world []"]
    confirm_transition_table [where val=False and r="Some [13]"
      and question="js ''q''" and rs="[]"
      and w="interactive_world [Some [13]]" and w'="interactive_world []"]
    confirm_transition_table [where val=False and r="Some [13]"
      and question="js ''q''" and rs="[]"
      and w="interactive_world [Some [0x79], Some [13]]" and w'="interactive_world []"]
    confirm_transition_table [where val=True and r="Some [13]"
      and question="js ''q''" and rs="[]"
      and w="interactive_world [Some [0x6E], Some [13]]" and w'="interactive_world []"]
  by (simp add: interactive_world_def readKey_arrows readKey_enter readKey_xyz js_def Let_def)

section \<open>Confirm without a terminal\<close>

text \<open>
  The fallback branch of confirm runs when standard input is not a terminal, and there
  \<^verbatim>\<open>prompt\<close> gives \<^verbatim>\<open>null\<close>: the call returns the default and leaves the world as it
  was, whatever standard input holds. The test of the answer against y and yes, which
  follows in the source, is never reached.
\<close>

lemma confirm_fallback_default:
  assumes "\<not> isTerminal w"
  shows "confirm question defaultValue w = (Returned defaultValue, w)"
  using assms by (simp add: confirm_def confirm_fallback_def prompt_def Let_def)

text \<open>
  C8 fails on the code. The specification has a redirected yes return true and a
  redirected n return false. With the line yes on standard input and the default false,
  confirm returns false; with the line n and the default true, it returns true. In both
  cases nothing is read and nothing is printed.
\<close>

theorem confirm_fallback_ignores_the_line:
  "confirm (js ''Proceed?'') False (piped_world [Some (js ''yes'')])
     = (Returned False, piped_world [Some (js ''yes'')]) \<and>
   confirm (js ''Proceed?'') True (piped_world [Some (js ''n'')])
     = (Returned True, piped_world [Some (js ''n'')])"
  by (simp add: confirm_fallback_default piped_world_def)

section \<open>Write calls of a redraw\<close>

text \<open>
  C9, as the specification states it, fails: the frame of a select with two options is
  six calls of write, and the frames of input, rating and confirm are two calls each.
\<close>

theorem one_write_per_frame_counterexample:
  "length (out (select_render (js ''Pick'') [js ''a'', js ''b''] 0 (interactive_world []))) = 6 \<and>
   length (out (input_render (js ''Name'') [] (js ''x'') (interactive_world []))) = 2 \<and>
   length (out (rating_render (js ''Rate'') 1 5 3 (interactive_world []))) = 2 \<and>
   length (out (confirm_render (js ''Sure'') True (interactive_world []))) = 2"
  by (simp add: interactive_world_def select_render_def input_render_def rating_render_def
      confirm_render_def Let_def js_def)

text \<open>
  C9, amended. A widget writes its frame fragment by fragment: the frame of select is two
  calls of write and two more for every option (the line clear and the question, then for
  each option a line clear and the option's line), and a redraw of select, shown here for
  the down key, has one more call before them, which moves the cursor up; the frames of
  input, rating and confirm are two calls each, the line clear and the content.
\<close>

theorem writes_per_frame:
  "(\<exists>ts. out (select_render question options selected w) = out w @ map Write ts \<and>
         length ts = 2 + 2 * length options) \<and>
   (readKey r = Key_down \<and> selected < int (length options) - 1 \<longrightarrow>
      (\<exists>ts. out (snd (select_loop question options selected [r] w)) = out w @ map Write ts \<and>
            length ts = 3 + 2 * length options)) \<and>
   (\<exists>t1 t2. out (input_render question defaultValue buffer w) = out w @ [Write t1, Write t2]) \<and>
   (\<exists>t1 t2. out (rating_render question minv maxv val w) = out w @ [Write t1, Write t2]) \<and>
   (\<exists>t1 t2. out (confirm_render question flag w) = out w @ [Write t1, Write t2])"
proof (intro conjI impI)
  show "\<exists>ts. out (select_render question options selected w) = out w @ map Write ts \<and>
         length ts = 2 + 2 * length options"
    by (rule select_render_writes)
next
  assume "readKey r = Key_down \<and> selected < int (length options) - 1"
  then show "\<exists>ts. out (snd (select_loop question options selected [r] w)) = out w @ map Write ts \<and>
            length ts = 3 + 2 * length options"
    using select_redraw_writes by blast
qed (simp_all add: input_render_def rating_render_def confirm_render_def Let_def)

text \<open>
  The seven calls of one redraw: down on the first of two options moves the cursor up by
  three lines and paints the question and both option lines.
\<close>

theorem writes_per_frame_witness:
  "readKey (Some [0x1B, 0x5B, 0x42]) = Key_down \<and>
   (0 :: int) < int (length [js ''a'', js ''b'']) - 1 \<and>
   out (snd (select_loop (js ''Pick'') [js ''a'', js ''b''] 0 [Some [0x1B, 0x5B, 0x42]]
              (interactive_world [Some [0x1B, 0x5B, 0x42]])))
   = [Write (ansi_cursorUp 3),
      Write (CR @ ansi_clearLine), Write (js ''Pick'' @ LF),
      Write ansi_clearLine, Write (js ''  '' @ ansi_dim @ js ''a'' @ ansi_reset @ LF),
      Write ansi_clearLine, Write (ansi_cyan @ [0x276F, 0x20] @ js ''b'' @ ansi_reset @ LF)]"
  using writes_per_frame [where r="Some [0x1B, 0x5B, 0x42]" and selected=0
      and options="[js ''a'', js ''b'']" and question="js ''Pick''"
      and w="interactive_world [Some [0x1B, 0x5B, 0x42]]"]
  by (simp add: interactive_world_def readKey_arrows Let_def select_moveUp_def
      select_render_def)

section \<open>Select without options\<close>

text \<open>
  C10. With an empty option list select returns -1 and leaves the world as it was: nothing
  is read, raw mode is not touched and nothing is written, on a terminal and without one.
\<close>

theorem select_empty_options:
  "select question [] defaultIndex w = (Returned (- 1), w)"
  by (simp add: select_def)

end
